theory Spec2Isabelle
  imports Main "HOL-Library.AList"
begin

section \<open>Python values\<close>

text \<open>
  The client of \<^verbatim>\<open>StackSentinel/__init__.py\<close> handles arbitrary Python values: the
  caller's state dictionary, tags, the WSGI environ.  A value is modelled as a finite
  tree.  An object that the JSON encoder has no native encoding for (a file object,
  a set, a user class, ...) is \<open>PObj\<close>; the only thing the client ever does with such an
  object is to call \<^verbatim>\<open>repr\<close> on it, so the object is given by the outcome of that
  call: \<open>Some s\<close> when \<^verbatim>\<open>repr(obj)\<close> returns \<open>s\<close>, \<open>None\<close> when it raises.
  A dictionary is an association list in insertion order whose keys are values
  themselves (Python allows any hashable key).  Floats do not occur in the code and
  are left out; cyclic structures are not representable.
\<close>

datatype pyobj = PyObj (repr_outcome: "string option")

datatype pyval =
    PNone
  | PBool bool
  | PInt int
  | PStr string
  | PList "pyval list"
  | PTuple "pyval list"
  | PDict "(pyval \<times> pyval) list"
  | PObj pyobj

type_synonym pydict = "(pyval \<times> pyval) list"

text \<open>Truth value of a Python value, as \<^verbatim>\<open>if x:\<close> and \<^verbatim>\<open>x or y\<close> test it.\<close>

fun truthy :: "pyval \<Rightarrow> bool" where
  "truthy PNone = False"
| "truthy (PBool b) = b"
| "truthy (PInt i) = (i \<noteq> 0)"
| "truthy (PStr s) = (s \<noteq> [])"
| "truthy (PList xs) = (xs \<noteq> [])"
| "truthy (PTuple xs) = (xs \<noteq> [])"
| "truthy (PDict kvs) = (kvs \<noteq> [])"
| "truthy (PObj ob) = True"

text \<open>\<^verbatim>\<open>k in d\<close> and \<^verbatim>\<open>d[k] = v\<close> on a dictionary: an existing key keeps its position,
  a new key is appended.\<close>

definition dict_contains :: "pydict \<Rightarrow> pyval \<Rightarrow> bool" where
  "dict_contains d k = (map_of d k \<noteq> None)"

definition dict_set :: "pydict \<Rightarrow> pyval \<Rightarrow> pyval \<Rightarrow> pydict" where
  "dict_set d k v = AList.update k v d"

subsection \<open>Decimal text of an integer\<close>

fun digits :: "nat \<Rightarrow> string" where
  "digits n = (if n < 10 then [''0123456789'' ! n]
               else digits (n div 10) @ [''0123456789'' ! (n mod 10)])"

declare digits.simps [simp del]

definition int_text :: "int \<Rightarrow> string" where
  "int_text i = (if i < 0 then CHR ''-'' # digits (nat (- i)) else digits (nat i))"

text \<open>A text between single quotes, as Python prints names in messages and as
  \<^verbatim>\<open>repr\<close> prints a string (escapes are not modelled).  The \<^verbatim>\<open>repr\<close> of a bytes
  object is the same with a leading \<^verbatim>\<open>b\<close>.\<close>

definition quoted :: "string \<Rightarrow> string" where
  "quoted s = [CHR 0x27] @ s @ [CHR 0x27]"

definition bytes_repr :: "string \<Rightarrow> string" where
  "bytes_repr bs = CHR ''b'' # quoted bs"

section \<open>Exceptions\<close>

text \<open>
  An exception value carries its class name, the text \<^verbatim>\<open>str(e)\<close> gives and whether its
  class derives from \<^verbatim>\<open>Exception\<close> (\<^verbatim>\<open>KeyboardInterrupt\<close>, \<^verbatim>\<open>SystemExit\<close> and
  \<^verbatim>\<open>GeneratorExit\<close> do not, so \<^verbatim>\<open>except Exception\<close> lets them pass).  urllib's
  \<^verbatim>\<open>HTTPError\<close> carries the status code, the reason and the response body that
  \<^verbatim>\<open>e.read()\<close> returns, a byte string.  Raising is the \<open>Inl\<close> side of a sum.
\<close>

datatype exn =
    Exn (exn_class: string) (exn_message: string) (derives_Exception: bool)
  | HTTPError (http_code: nat) (http_reason: string) (http_body: string)

abbreviation StackSentinelError :: "string \<Rightarrow> exn" where
  "StackSentinelError m \<equiv> Exn ''StackSentinelError'' m True"

abbreviation AttributeError :: "string \<Rightarrow> exn" where
  "AttributeError m \<equiv> Exn ''AttributeError'' m True"

abbreviation TypeError :: "string \<Rightarrow> exn" where
  "TypeError m \<equiv> Exn ''TypeError'' m True"

abbreviation UnicodeDecodeError :: "string \<Rightarrow> exn" where
  "UnicodeDecodeError m \<equiv> Exn ''UnicodeDecodeError'' m True"

fun is_Exception :: "exn \<Rightarrow> bool" where
  "is_Exception (Exn c m b) = b"
| "is_Exception (HTTPError c r b) = True"

fun class_name :: "exn \<Rightarrow> string" where
  "class_name (Exn c m b) = c"
| "class_name (HTTPError c r b) = ''HTTPError''"

text \<open>\<^verbatim>\<open>str(e)\<close> and \<^verbatim>\<open>repr(e)\<close> of an exception (the quoting inside \<^verbatim>\<open>repr\<close> is not
  modelled beyond the surrounding quotes).\<close>

fun py_str :: "exn \<Rightarrow> string" where
  "py_str (Exn c m b) = m"
| "py_str (HTTPError c r b) = ''HTTP Error '' @ digits c @ '': '' @ r"

fun py_repr :: "exn \<Rightarrow> string" where
  "py_repr (Exn c m b) = c @ ''('' @ [CHR 0x27] @ m @ [CHR 0x27] @ '')''"
| "py_repr (HTTPError c r b) = ''<HTTPError '' @ digits c @ '': '' @ [CHR 0x27] @ r @ [CHR 0x27] @ ''>''"

text \<open>Python 2's \<^verbatim>\<open>unicode(value)\<close> decodes a byte-string message as ASCII and raises
  \<^verbatim>\<open>UnicodeDecodeError\<close> on a byte above 127.\<close>

definition py_unicode :: "string \<Rightarrow> exn + string" where
  "py_unicode s =
     (if list_all (\<lambda>c. (of_char c :: nat) < 128) s then Inr s
      else Inl (UnicodeDecodeError ''ordinal not in range(128)''))"

section \<open>JSON encoding\<close>

text \<open>
  \<^verbatim>\<open>json.dumps(value, default=f)\<close> of the standard library, as far as the client uses it.
  The result is the JSON document as a tree (its rendering as text is not modelled).
  None, booleans, integers and strings are encoded natively, lists and tuples as arrays,
  dictionaries as objects.  A dictionary key must be a string, an integer, a boolean or
  None (the last three are turned into text); any other key makes the encoder raise
  \<^verbatim>\<open>TypeError\<close>: \<^verbatim>\<open>default\<close> is consulted for values only, and the client does not pass
  \<^verbatim>\<open>skipkeys\<close>.  For every other value the encoder calls \<^verbatim>\<open>default\<close> and encodes what it
  returns; the client's \<^verbatim>\<open>default\<close> returns a string in both of its branches, which is
  emitted as a JSON string.
\<close>

datatype json =
    JNull
  | JBool bool
  | JInt int
  | JStr string
  | JArr "json list"
  | JObj "(string \<times> json) list"

fun json_key :: "pyval \<Rightarrow> exn + string" where
  "json_key (PStr s) = Inr s"
| "json_key (PInt i) = Inr (int_text i)"
| "json_key (PBool b) = Inr (if b then ''true'' else ''false'')"
| "json_key PNone = Inr ''null''"
| "json_key k = Inl (TypeError ''keys must be str, int, float, bool or None'')"

fun json_dumps :: "(pyobj \<Rightarrow> string) \<Rightarrow> pyval \<Rightarrow> exn + json"
  and json_dumps_list :: "(pyobj \<Rightarrow> string) \<Rightarrow> pyval list \<Rightarrow> exn + json list"
  and json_dumps_items :: "(pyobj \<Rightarrow> string) \<Rightarrow> (pyval \<times> pyval) list \<Rightarrow> exn + (string \<times> json) list"
where
  "json_dumps dflt PNone = Inr JNull"
| "json_dumps dflt (PBool b) = Inr (JBool b)"
| "json_dumps dflt (PInt i) = Inr (JInt i)"
| "json_dumps dflt (PStr s) = Inr (JStr s)"
| "json_dumps dflt (PList xs) =
     (case json_dumps_list dflt xs of Inl e \<Rightarrow> Inl e | Inr js \<Rightarrow> Inr (JArr js))"
| "json_dumps dflt (PTuple xs) =
     (case json_dumps_list dflt xs of Inl e \<Rightarrow> Inl e | Inr js \<Rightarrow> Inr (JArr js))"
| "json_dumps dflt (PDict kvs) =
     (case json_dumps_items dflt kvs of Inl e \<Rightarrow> Inl e | Inr ms \<Rightarrow> Inr (JObj ms))"
| "json_dumps dflt (PObj ob) = Inr (JStr (dflt ob))"
| "json_dumps_list dflt [] = Inr []"
| "json_dumps_list dflt (x # xs) =
     (case json_dumps dflt x of
        Inl e \<Rightarrow> Inl e
      | Inr j \<Rightarrow> (case json_dumps_list dflt xs of Inl e \<Rightarrow> Inl e | Inr js \<Rightarrow> Inr (j # js)))"
| "json_dumps_items dflt [] = Inr []"
| "json_dumps_items dflt ((k, v) # kvs) =
     (case json_key k of
        Inl e \<Rightarrow> Inl e
      | Inr s \<Rightarrow>
          (case json_dumps dflt v of
             Inl e \<Rightarrow> Inl e
           | Inr j \<Rightarrow>
               (case json_dumps_items dflt kvs of
                  Inl e \<Rightarrow> Inl e
                | Inr ms \<Rightarrow> Inr ((s, j) # ms))))"

section \<open>Results that may raise\<close>

text \<open>Sequencing of two steps of which the first may raise.\<close>

definition and_then :: "exn + 'a \<Rightarrow> ('a \<Rightarrow> exn + 'b) \<Rightarrow> exn + 'b" where
  "and_then r f = (case r of Inl e \<Rightarrow> Inl e | Inr x \<Rightarrow> f x)"

text \<open>The statement \<^verbatim>\<open>d[key] = call()\<close>: the call is evaluated first, and only when it
  returns is the entry stored.\<close>

definition assign :: "pydict \<Rightarrow> string \<Rightarrow> exn + pyval \<Rightarrow> exn + pydict" where
  "assign d key r = (case r of Inl e \<Rightarrow> Inl e | Inr v \<Rightarrow> Inr (dict_set d (PStr key) v))"

section \<open>The interpreter and the machine around the client\<close>

text \<open>
  What the client reads from its surroundings is collected in a record: the version
  of the interpreter, the path from which it loaded this module (the
  \<^verbatim>\<open>co_filename\<close> of the module's code objects), the pending
  exception as \<^verbatim>\<open>sys.exc_info()\<close> returns it, the attributes of \<^verbatim>\<open>sys\<close>, the modules
  \<^verbatim>\<open>socket\<close> and \<^verbatim>\<open>platform\<close> (\<open>None\<close> when the import at the top of the file failed and
  the name was bound to \<^verbatim>\<open>None\<close>), the outcome of each call into them, and the network
  as the function \<^verbatim>\<open>urlopen\<close>.  Decoding bytes and parsing JSON text are library
  functions taken as parameters.
\<close>

record tb_entry =
  tb_lineno :: int
  co_filename :: string
  co_name :: string

text \<open>The triple \<^verbatim>\<open>(etype, value, tb)\<close>: the class is given by its \<^verbatim>\<open>__name__\<close>, the
  traceback chain linked by \<^verbatim>\<open>tb_next\<close> is a list, and \<^verbatim>\<open>None\<close> components are
  \<open>None\<close>, \<open>None\<close> and the empty chain.  Outside an exception handler
  \<^verbatim>\<open>sys.exc_info()\<close> returns \<^verbatim>\<open>(None, None, None)\<close>.\<close>

type_synonym exc_info = "string option \<times> exn option \<times> tb_entry list"

record platform_module =
  platform_uname :: "exn + pyval"
  platform_node :: "exn + pyval"
  platform_libc_ver :: "exn + pyval"
  platform_version :: "exn + pyval"
  platform_dist :: "exn + pyval"

record request =
  url :: string
  data :: json
  headers :: "(string \<times> string) list"

text \<open>A response: the bytes \<^verbatim>\<open>read()\<close> returns, \<^verbatim>\<open>headers.get_content_charset()\<close>, and
  for Python 2 the value of
  \<^verbatim>\<open>headers.get('content-type', '').split('charset=')[-1].strip()\<close>.\<close>

record response =
  body :: string
  content_charset :: "string option"
  py2_encoding :: string

record runtime =
  version_major :: nat
  version_minor :: nat
  module_file :: string
  sys_exc_info :: exc_info
  sys_version :: pyval
  sys_version_info :: pyval
  sys_path :: pyval
  sys_platform :: pyval
  socket :: "(exn + pyval) option"
  os_environ :: "exn + pyval"
  platform :: "platform_module option"
  urlopen :: "request \<Rightarrow> exn + response"
  bytes_decode :: "string \<Rightarrow> string \<Rightarrow> exn + string"
  bytes_decode_replace :: "string \<Rightarrow> string"
  json_loads :: "string \<Rightarrow> exn + pyval"

text \<open>
  The mutable part: the dictionaries that the caller and the client share, in a store
  addressed by position (a new dictionary is appended), and the requests that have
  been handed to \<^verbatim>\<open>urlopen\<close>, oldest first.
\<close>

type_synonym addr = nat

record world =
  store :: "pydict list"
  requests :: "request list"

definition store_set :: "world \<Rightarrow> addr \<Rightarrow> string \<Rightarrow> pyval \<Rightarrow> world" where
  "store_set w a key v = w\<lparr>store := (store w)[a := dict_set (store w ! a) (PStr key) v]\<rparr>"

section \<open>StackSentinelClient\<close>

record client =
  account_token :: string
  project_token :: string
  endpoint :: string
  environment :: string
  tags :: "pyval list"

definition USER_AGENT :: string where
  "USER_AGENT = ''STACK SENTINEL PYTHON CLIENT''"

definition default_endpoint :: string where
  "default_endpoint = ''https://api.stacksentinel.com/api/v1/insert''"

text \<open>\<^verbatim>\<open>__init__\<close>: \<^verbatim>\<open>tags\<close> is a list of tags or absent; \<^verbatim>\<open>if tags:\<close> is false for
  \<^verbatim>\<open>None\<close> and for the empty list.\<close>

definition StackSentinelClient_init ::
  "string \<Rightarrow> string \<Rightarrow> string \<Rightarrow> pyval list option \<Rightarrow> string \<Rightarrow> client" where
  "StackSentinelClient_init account_token' project_token' environment' tags' endpoint' =
     \<lparr>account_token = account_token',
      project_token = project_token',
      endpoint = endpoint',
      environment = environment',
      tags = (case tags' of None \<Rightarrow> [] | Some ts \<Rightarrow> (if ts \<noteq> [] then ts else []))\<rparr>"

text \<open>\<^verbatim>\<open>_serialize_object\<close>: the bare \<^verbatim>\<open>except\<close> catches whatever \<^verbatim>\<open>repr\<close> raises.\<close>

definition serialize_object :: "pyobj \<Rightarrow> string" where
  "serialize_object obj =
     (case repr_outcome obj of Some s \<Rightarrow> s | None \<Rightarrow> ''<Cannot Be Serialized>'')"

subsection \<open>Collectors\<close>

definition get_sys_info :: "runtime \<Rightarrow> exn + pyval" where
  "get_sys_info rt =
     Inr (PDict [(PStr ''version'', sys_version rt),
                 (PStr ''version_info'', sys_version_info rt),
                 (PStr ''path'', sys_path rt),
                 (PStr ''platform'', sys_platform rt)])"

text \<open>\<^verbatim>\<open>_get_machine_info\<close>.  Only the call of \<^verbatim>\<open>socket.gethostname\<close> stands in a
  \<^verbatim>\<open>try\<close>; \<^verbatim>\<open>except Exception\<close> catches the classes that derive from \<^verbatim>\<open>Exception\<close>.\<close>

definition get_machine_info :: "runtime \<Rightarrow> exn + pyval" where
  "get_machine_info rt =
     and_then
       (case socket rt of
          Some gethostname \<Rightarrow>
            (case gethostname of
               Inr h \<Rightarrow> Inr (dict_set [] (PStr ''hostname'') h)
             | Inl e \<Rightarrow>
                 if is_Exception e
                 then Inr (dict_set [] (PStr ''hostname'')
                             (PStr (''<Could not determine: '' @ py_repr e @ ''>'')))
                 else Inl e)
        | None \<Rightarrow> Inr (dict_set [] (PStr ''hostname'') (PStr ''<socket module not available>'')))
       (\<lambda>m1. and_then (assign m1 ''environ'' (os_environ rt))
       (\<lambda>m2. case platform rt of
                None \<Rightarrow> Inr (PDict m2)
              | Some p \<Rightarrow>
                  and_then (assign m2 ''platform'' (platform_uname p))
                  (\<lambda>m3. and_then (assign m3 ''node'' (platform_node p))
                  (\<lambda>m4. and_then (assign m4 ''libc_ver'' (platform_libc_ver p))
                  (\<lambda>m5. and_then (assign m5 ''version'' (platform_version p))
                  (\<lambda>m6. and_then (assign m6 ''dist'' (platform_dist p))
                  (\<lambda>m7. Inr (PDict m7))))))))"

subsection \<open>Building and sending the envelope\<close>

text \<open>\<^verbatim>\<open>_generate_request\<close>: the payload is the JSON document of the envelope, the
  request carries it as its data.  \<^verbatim>\<open>tags or []\<close> replaces a false value by the
  empty list.\<close>

definition generate_request ::
  "client \<Rightarrow> string \<Rightarrow> string \<Rightarrow> string \<Rightarrow> bool \<Rightarrow> pyval \<Rightarrow> pyval \<Rightarrow> pyval
     \<Rightarrow> exn + (request \<times> json)" where
  "generate_request self environment' error_message' error_type' return_feedback_urls'
       state' tags' traceback' =
     (case json_dumps serialize_object
             (PDict [(PStr ''account_token'', PStr (account_token self)),
                     (PStr ''project_token'', PStr (project_token self)),
                     (PStr ''return_feedback_urls'', PBool return_feedback_urls'),
                     (PStr ''errors'',
                        PList [PDict [(PStr ''error_type'', PStr error_type'),
                                      (PStr ''error_message'', PStr error_message'),
                                      (PStr ''environment'', PStr environment'),
                                      (PStr ''traceback'', traceback'),
                                      (PStr ''state'', state'),
                                      (PStr ''tags'', if truthy tags' then tags' else PList [])]])])
      of
        Inl e \<Rightarrow> Inl e
      | Inr payload \<Rightarrow>
          Inr (\<lparr>url = endpoint self,
                data = payload,
                headers = [(''Accept-Charset'', ''utf-8''),
                           (''Content-Type'', ''application/x-www-form-urlencoded ; charset=UTF-8''),
                           (''User-Agent'', USER_AGENT)]\<rparr>,
               payload))"

text \<open>\<^verbatim>\<open>StackSentinelError(e.read())\<close>: \<^verbatim>\<open>read()\<close> returns the body of the response
  as a byte string, and the exception is built from it as it is.  On Python 2 a byte
  string is a \<^verbatim>\<open>str\<close>, and the text of the exception is the body.  On Python 3 it
  is a \<^verbatim>\<open>bytes\<close> object, which the exception holds undecoded: the text of the
  exception is the \<^verbatim>\<open>repr\<close> of the bytes object.\<close>

definition error_of_body :: "runtime \<Rightarrow> string \<Rightarrow> exn" where
  "error_of_body rt content =
     StackSentinelError (if version_major rt > 2 then bytes_repr content else content)"

text \<open>\<^verbatim>\<open>send_error\<close>.  The request is recorded when \<^verbatim>\<open>urlopen\<close> is called.  An
  \<^verbatim>\<open>HTTPError\<close> with code 400 becomes a \<^verbatim>\<open>StackSentinelError\<close> built from the body;
  every other exception of \<^verbatim>\<open>urlopen\<close> passes.  Only the reply that arrives without
  an error is decoded.\<close>

definition send_error ::
  "runtime \<Rightarrow> client \<Rightarrow> string \<Rightarrow> string \<Rightarrow> pyval \<Rightarrow> string \<Rightarrow> pyval \<Rightarrow> pyval \<Rightarrow> bool
     \<Rightarrow> world \<Rightarrow> (exn + pyval) \<times> world" where
  "send_error rt self error_type' error_message' traceback' environment' state' tags'
       return_feedback_urls' w =
     (case generate_request self environment' error_message' error_type'
             return_feedback_urls' state' tags' traceback' of
        Inl e \<Rightarrow> (Inl e, w)
      | Inr (request, payload) \<Rightarrow>
          (let w' = w\<lparr>requests := requests w @ [request]\<rparr> in
           case urlopen rt request of
             Inl e \<Rightarrow>
               (case e of
                  HTTPError code reason content \<Rightarrow>
                    if code = 400 then (Inl (error_of_body rt content), w') else (Inl e, w')
                | Exn c m b \<Rightarrow> (Inl e, w'))
           | Inr response \<Rightarrow>
               (let text_response =
                      (if version_major rt > 2
                       then bytes_decode rt
                              (case content_charset response of
                                 Some cs \<Rightarrow> if cs \<noteq> [] then cs else ''utf8''
                               | None \<Rightarrow> ''utf8'')
                              (body response)
                       else (let encoding = py2_encoding response in
                             if encoding \<noteq> []
                             then Inr (bytes_decode_replace rt (body response))
                             else bytes_decode rt encoding (body response)))
                in (and_then text_response (json_loads rt), w'))))"

subsection \<open>handle_exception\<close>

text \<open>The dictionary \<^verbatim>\<open>send_error_args\<close>; \<open>state\<close> is the address of the state
  dictionary, which the bundle shares with the caller.\<close>

record send_error_args =
  error_type :: string
  error_message :: string
  traceback :: "pyval list"
  args_environment :: string
  state :: addr
  args_tags :: "pyval list"
  return_feedback_urls :: bool

datatype hresult = DryRun send_error_args | Sent pyval

definition frame_dict :: "tb_entry \<Rightarrow> pyval" where
  "frame_dict t = PDict [(PStr ''line'', PInt (tb_lineno t)),
                         (PStr ''module'', PStr (co_filename t)),
                         (PStr ''method'', PStr (co_name t))]"

text \<open>The \<^verbatim>\<open>while\<close> loop over the traceback chain, with its counter and its limit.\<close>

fun walk_tb :: "nat option \<Rightarrow> nat \<Rightarrow> tb_entry list \<Rightarrow> pyval list \<Rightarrow> pyval list" where
  "walk_tb limit n [] new_tb = new_tb"
| "walk_tb limit n (t # tb) new_tb =
     (if (case limit of None \<Rightarrow> True | Some l \<Rightarrow> n < l)
      then walk_tb limit (n + 1) tb (new_tb @ [frame_dict t])
      else new_tb)"

text \<open>\<^verbatim>\<open>'<Unable to get machine: %e>' % e\<close>: the conversion \<^verbatim>\<open>%e\<close> wants a number and
  raises \<^verbatim>\<open>TypeError\<close> for an exception.\<close>

definition format_e :: "exn \<Rightarrow> exn + string" where
  "format_e e = Inl (TypeError (''must be real number, not '' @ class_name e))"

text \<open>Lines 155 to 167: the state dictionary is the caller's or a new one, and the
  entries \<^verbatim>\<open>sys\<close> and \<^verbatim>\<open>machine\<close> are stored into it unless present.  The result is the
  address of the dictionary, or the exception raised, with the world as it is then.\<close>

definition populate_state :: "runtime \<Rightarrow> addr option \<Rightarrow> world \<Rightarrow> (exn + addr) \<times> world" where
  "populate_state rt state_arg w =
     (let (a, w1) = (case state_arg of
                       None \<Rightarrow> (length (store w), w\<lparr>store := store w @ [[]]\<rparr>)
                     | Some a \<Rightarrow> (a, w));
          r2 = (if \<not> dict_contains (store w1 ! a) (PStr ''sys'')
                then (case get_sys_info rt of
                        Inr v \<Rightarrow> Inr (store_set w1 a ''sys'' v)
                      | Inl e \<Rightarrow>
                          if is_Exception e
                          then Inr (store_set w1 a ''sys''
                                      (PStr (''<Unable to get sys: '' @ py_repr e @ ''>'')))
                          else Inl e)
                else Inr w1)
      in case r2 of
           Inl e \<Rightarrow> (Inl e, w1)
         | Inr w2 \<Rightarrow>
             if \<not> dict_contains (store w2 ! a) (PStr ''machine'')
             then (case get_machine_info rt of
                     Inr v \<Rightarrow> (Inr a, store_set w2 a ''machine'' v)
                   | Inl e \<Rightarrow>
                       if is_Exception e
                       then (case format_e e of
                               Inl e' \<Rightarrow> (Inl e', w2)
                             | Inr s \<Rightarrow>
                                 (Inr a, store_set w2 a ''machine''
                                           (PStr (''<Unable to get machine: '' @ s @ ''>''))))
                       else (Inl e, w2))
             else (Inr a, w2))"

text \<open>Lines 173 to 178: the class name and the text of the exception.  On
  \<^verbatim>\<open>None\<close> the attribute \<^verbatim>\<open>__name__\<close> does not exist; \<^verbatim>\<open>str(None)\<close> is \<^verbatim>\<open>'None'\<close>.\<close>

definition error_text :: "runtime \<Rightarrow> string option \<Rightarrow> exn option \<Rightarrow> exn + (string \<times> string)" where
  "error_text rt etype val =
     (case etype of
        None \<Rightarrow> Inl (AttributeError (quoted ''NoneType'' @ '' object has no attribute ''
                                       @ quoted ''__name__''))
      | Some name \<Rightarrow>
          (let text = (case val of None \<Rightarrow> ''None'' | Some v \<Rightarrow> py_str v) in
           if version_major rt > 2 then Inr (name, text)
           else and_then (py_unicode name) (\<lambda>error_type'.
                and_then (py_unicode text) (\<lambda>error_message'.
                Inr (error_type', error_message')))))"

text \<open>\<^verbatim>\<open>self.tags + tags\<close>: a list can only be concatenated with a list.\<close>

definition list_add :: "pyval list \<Rightarrow> pyval \<Rightarrow> exn + pyval list" where
  "list_add xs v =
     (case v of
        PList ys \<Rightarrow> Inr (xs @ ys)
      | _ \<Rightarrow> Inl (TypeError ''can only concatenate list to list''))"

text \<open>
  \<^verbatim>\<open>handle_exception\<close>.  \<open>exc_info_arg = None\<close> is the omitted (or false) argument.
  The assignment to \<^verbatim>\<open>msg\<close> (lines 131 to 134) is left out: its bare \<^verbatim>\<open>except\<close>
  catches every failure and \<^verbatim>\<open>msg\<close> is never read.  The result is what the call
  returns or raises, and the world after it.
\<close>

definition handle_exception ::
  "runtime \<Rightarrow> client \<Rightarrow> exc_info option \<Rightarrow> addr option \<Rightarrow> pyval \<Rightarrow> bool \<Rightarrow> bool
     \<Rightarrow> world \<Rightarrow> (exn + hresult) \<times> world" where
  "handle_exception rt self exc_info_arg state_arg tags_arg return_feedback_urls' dry_run w =
     (let exc_info = (case exc_info_arg of
                        None \<Rightarrow> Some (sys_exc_info rt)
                      | Some t \<Rightarrow> Some t)
      in case exc_info of
           None \<Rightarrow>
             (Inl (StackSentinelError ''handle_exception called outside of exception handler''), w)
         | Some (etype, val, tb) \<Rightarrow>
             (let tags1 = (case tags_arg of PList ts \<Rightarrow> tags_arg | _ \<Rightarrow> PList [tags_arg]);
                  limit = None;
                  new_tb = walk_tb limit 0 tb []
              in case populate_state rt state_arg w of
                   (Inl e, w') \<Rightarrow> (Inl e, w')
                 | (Inr a, w') \<Rightarrow>
                     (let tags2 = (if tags1 = PNone then PList [] else tags1) in
                      case error_text rt etype val of
                        Inl e \<Rightarrow> (Inl e, w')
                      | Inr (error_type', error_message') \<Rightarrow>
                          (case list_add (tags self) tags2 of
                             Inl e \<Rightarrow> (Inl e, w')
                           | Inr all_tags \<Rightarrow>
                               (let args = \<lparr>error_type = error_type',
                                            error_message = error_message',
                                            traceback = new_tb,
                                            args_environment = environment self,
                                            state = a,
                                            args_tags = all_tags,
                                            return_feedback_urls = return_feedback_urls'\<rparr>
                                in if dry_run then (Inr (DryRun args), w')
                                   else (case send_error rt self (error_type args)
                                                (error_message args) (PList (traceback args))
                                                (args_environment args) (PDict (store w' ! state args))
                                                (PList (args_tags args)) (return_feedback_urls args) w'
                                         of (r, w'') \<Rightarrow> (map_sum id Sent r, w'')))))))"

section \<open>StackSentinelMiddleware\<close>

text \<open>
  The object the wrapped application returns: the items its iteration yields, the
  exception (with traceback) that the iteration raises after them, if any, and its
  \<^verbatim>\<open>close\<close> attribute: \<open>None\<close> when it has none, otherwise what calling it does
  (\<open>None\<close>: it returns, \<open>Some e\<close>: it raises \<open>e\<close>).
\<close>

record wsgi_result =
  items :: "pyval list"
  iter_raises :: "(exn \<times> tb_entry list) option"
  close_method :: "exn option option"

text \<open>Calling the application raises, or returns \<^verbatim>\<open>None\<close> or a result object.  An
  exception comes with the frames of its traceback that lie inside the application,
  below the frame of \<^verbatim>\<open>__call__\<close>.\<close>

type_synonym app_outcome = "(exn \<times> tb_entry list) + wsgi_result option"

record middleware =
  app :: "pyval \<Rightarrow> app_outcome"
  mw_client :: client

text \<open>What the consumer of the generator observes: the items it received, the
  exception that reached it, and how often \<^verbatim>\<open>result.close()\<close> was called.\<close>

record mw_outcome =
  yielded :: "pyval list"
  raised :: "exn option"
  closes :: nat

text \<open>\<^verbatim>\<open>self.client.handle_exception(state={'wsgi_environ': environ})\<close> inside an
  \<^verbatim>\<open>except\<close> block of \<^verbatim>\<open>__call__\<close>: the state dictionary is new, and
  \<^verbatim>\<open>sys.exc_info()\<close> is the exception being handled, whose traceback starts with the
  frame of \<^verbatim>\<open>__call__\<close> at the line of the statement that raised (line 297 for the
  call of the application, line 304 for the iteration).\<close>

definition call_frame :: "runtime \<Rightarrow> int \<Rightarrow> tb_entry" where
  "call_frame rt line =
     \<lparr>tb_lineno = line, co_filename = module_file rt, co_name = ''__call__''\<rparr>"

definition report ::
  "runtime \<Rightarrow> client \<Rightarrow> pyval \<Rightarrow> exn \<Rightarrow> int \<Rightarrow> tb_entry list \<Rightarrow> world
     \<Rightarrow> (exn + hresult) \<times> world" where
  "report rt cl environ e line tb w =
     handle_exception
       (rt\<lparr>sys_exc_info := (Some (class_name e), Some e, call_frame rt line # tb)\<rparr>) cl None
       (Some (length (store w))) PNone False False
       (w\<lparr>store := store w @ [[(PStr ''wsgi_environ'', environ)]]\<rparr>)"

text \<open>An \<^verbatim>\<open>except Exception:\<close> block that reports and re-raises: the exception that
  leaves the block, and the world.\<close>

definition report_and_raise ::
  "runtime \<Rightarrow> client \<Rightarrow> pyval \<Rightarrow> exn \<Rightarrow> int \<Rightarrow> tb_entry list \<Rightarrow> world \<Rightarrow> exn \<times> world" where
  "report_and_raise rt cl environ e line tb w =
     (if is_Exception e
      then (case report rt cl environ e line tb w of
              (Inl e', w') \<Rightarrow> (e', w')
            | (Inr r, w') \<Rightarrow> (e, w'))
      else (e, w))"

text \<open>The \<^verbatim>\<open>finally\<close> clause: with \<open>pending\<close> the exception in flight, if any.  An
  exception of \<^verbatim>\<open>close()\<close> replaces it.\<close>

definition finally_close :: "wsgi_result \<Rightarrow> exn option \<Rightarrow> exn option \<times> nat" where
  "finally_close res pending =
     (case close_method res of
        None \<Rightarrow> (pending, 0)
      | Some None \<Rightarrow> (pending, 1)
      | Some (Some e) \<Rightarrow> (Some e, 1))"

text \<open>
  \<^verbatim>\<open>StopIteration\<close> has a meaning of its own in both places where the middleware
  meets it (the class is recognised by its name; subclasses are not modelled).  Raised
  by the iteration of the response, it is the end of the \<^verbatim>\<open>for\<close> loop and no failure.
  Leaving the body of a generator, it is replaced by \<^verbatim>\<open>RuntimeError\<close> from Python 3.7
  on (PEP 479; the module does not import \<^verbatim>\<open>generator_stop\<close>), and before that it
  ends the generator like a \<^verbatim>\<open>return\<close>, so that the consumer sees no exception.
\<close>

definition is_StopIteration :: "exn \<Rightarrow> bool" where
  "is_StopIteration e = (class_name e = ''StopIteration'')"

definition iteration_failure :: "wsgi_result \<Rightarrow> (exn \<times> tb_entry list) option" where
  "iteration_failure res =
     (case iter_raises res of
        None \<Rightarrow> None
      | Some (e, tb) \<Rightarrow> if is_StopIteration e then None else Some (e, tb))"

definition pep479 :: "runtime \<Rightarrow> bool" where
  "pep479 rt = (version_major rt > 3 \<or> (version_major rt = 3 \<and> version_minor rt \<ge> 7))"

definition leave_generator :: "runtime \<Rightarrow> exn option \<Rightarrow> exn option" where
  "leave_generator rt pending =
     (case pending of
        None \<Rightarrow> None
      | Some e \<Rightarrow>
          if is_StopIteration e
          then (if pep479 rt
                then Some (Exn ''RuntimeError'' ''generator raised StopIteration'' True)
                else None)
          else Some e)"

text \<open>
  \<^verbatim>\<open>__call__\<close> is a generator function: its body runs when the consumer asks for
  items.  \<open>demand = None\<close> is a consumer that iterates to the end; \<open>demand = Some k\<close> one
  that asks for at most \<open>k\<close> items and then closes the generator, which raises
  \<^verbatim>\<open>GeneratorExit\<close> (not an \<^verbatim>\<open>Exception\<close>) at the \<^verbatim>\<open>yield\<close> where the body is suspended.
  With \<open>k = 0\<close> the body never starts.
\<close>

definition middleware_call ::
  "runtime \<Rightarrow> middleware \<Rightarrow> pyval \<Rightarrow> nat option \<Rightarrow> world \<Rightarrow> mw_outcome \<times> world" where
  "middleware_call rt self environ demand w =
     (if demand = Some 0 then (\<lparr>yielded = [], raised = None, closes = 0\<rparr>, w)
      else
        (case app self environ of
           Inl (e, tb) \<Rightarrow>
             (case report_and_raise rt (mw_client self) environ e 297 tb w of
                (e', w') \<Rightarrow>
                  (\<lparr>yielded = [], raised = leave_generator rt (Some e'), closes = 0\<rparr>, w'))
         | Inr None \<Rightarrow> (\<lparr>yielded = [], raised = None, closes = 0\<rparr>, w)
         | Inr (Some res) \<Rightarrow>
             (let to_the_end =
                    (case iteration_failure res of
                       None \<Rightarrow>
                         (case finally_close res None of
                            (r, n) \<Rightarrow>
                              (\<lparr>yielded = items res, raised = leave_generator rt r,
                                closes = n\<rparr>, w))
                     | Some (e, tb) \<Rightarrow>
                         (case report_and_raise rt (mw_client self) environ e 304 tb w of
                            (e', w') \<Rightarrow>
                              (case finally_close res (Some e') of
                                 (r, n) \<Rightarrow>
                                   (\<lparr>yielded = items res, raised = leave_generator rt r,
                                     closes = n\<rparr>, w'))))
              in case demand of
                   None \<Rightarrow> to_the_end
                 | Some k \<Rightarrow>
                     if k \<le> length (items res)
                     then (case finally_close res None of
                             (r, n) \<Rightarrow>
                               (\<lparr>yielded = take k (items res), raised = leave_generator rt r,
                                 closes = n\<rparr>, w))
                     else to_the_end)))"

section \<open>Concrete surroundings\<close>

text \<open>An interpreter of version 3.7 on a machine where every collector call returns,
  inside no exception handler, with a server that answers every request with an empty
  JSON object.\<close>

definition ok_platform :: platform_module where
  "ok_platform =
     \<lparr>platform_uname = Inr (PTuple [PStr ''Linux'', PStr ''host1'']),
      platform_node = Inr (PStr ''host1''),
      platform_libc_ver = Inr (PTuple [PStr ''glibc'', PStr ''2.28'']),
      platform_version = Inr (PStr ''#1 SMP''),
      platform_dist = Inr (PTuple [PStr ''debian'', PStr ''10''])\<rparr>"

definition ok_runtime :: runtime where
  "ok_runtime =
     \<lparr>version_major = 3,
      version_minor = 7,
      module_file = ''StackSentinel/__init__.py'',
      sys_exc_info = (None, None, []),
      sys_version = PStr ''3.7.0'',
      sys_version_info = PTuple [PInt 3, PInt 7, PInt 0, PStr ''final'', PInt 0],
      sys_path = PList [PStr ''/usr/lib/python3.7''],
      sys_platform = PStr ''linux'',
      socket = Some (Inr (PStr ''host1'')),
      os_environ = Inr (PDict [(PStr ''HOME'', PStr ''/root'')]),
      platform = Some ok_platform,
      urlopen = (\<lambda>rq. Inr \<lparr>body = ''{}'', content_charset = None, py2_encoding = []\<rparr>),
      bytes_decode = (\<lambda>codec bs. Inr bs),
      bytes_decode_replace = (\<lambda>bs. bs),
      json_loads = (\<lambda>t. Inr (PDict []))\<rparr>"

definition demo_client :: client where
  "demo_client =
     StackSentinelClient_init ''acct'' ''proj'' ''devel'' (Some [PStr ''a'']) default_endpoint"

definition empty_world :: world where
  "empty_world = \<lparr>store = [], requests = []\<rparr>"

text \<open>The exception of \<^verbatim>\<open>raise ValueError('boom')\<close> with a traceback of one frame, and
  the interpreter while that exception is being handled.\<close>

definition boom :: exn where
  "boom = Exn ''ValueError'' ''boom'' True"

definition boom_tb :: "tb_entry list" where
  "boom_tb = [\<lparr>tb_lineno = 7, co_filename = ''app.py'', co_name = ''handler''\<rparr>]"

definition handling_boom :: runtime where
  "handling_boom = ok_runtime\<lparr>sys_exc_info := (Some ''ValueError'', Some boom, boom_tb)\<rparr>"

text \<open>The same interpreter on Python 3.8 or later, where \<^verbatim>\<open>platform.dist\<close> no longer
  exists and the attribute access raises \<^verbatim>\<open>AttributeError\<close>.\<close>

definition no_dist_runtime :: runtime where
  "no_dist_runtime =
     handling_boom\<lparr>platform :=
       Some (ok_platform\<lparr>platform_dist :=
               Inl (AttributeError ''module platform has no attribute dist'')\<rparr>)\<rparr>"

text \<open>A machine on which \<^verbatim>\<open>socket.gethostname()\<close> raises.\<close>

definition no_hostname_runtime :: runtime where
  "no_hostname_runtime =
     handling_boom\<lparr>socket := Some (Inl (Exn ''OSError'' ''gethostname failed'' True))\<rparr>"


definition bad_token_runtime :: runtime where
  "bad_token_runtime =
     ok_runtime\<lparr>urlopen := (\<lambda>rq. Inl (HTTPError 400 ''Bad Request'' ''bad token''))\<rparr>"

text \<open>The server that answers 400, seen from Python 2.7.\<close>

definition py2_bad_token_runtime :: runtime where
  "py2_bad_token_runtime = bad_token_runtime\<lparr>version_major := 2, version_minor := 7\<rparr>"

definition server_error_runtime :: runtime where
  "server_error_runtime =
     ok_runtime\<lparr>urlopen := (\<lambda>rq. Inl (HTTPError 500 ''Internal Server Error'' ''oops!''))\<rparr>"

text \<open>Applications: one that raises when called, and one whose response yields an
  item and raises on the second, and has a \<^verbatim>\<open>close\<close> method.\<close>

definition raising_mw :: middleware where
  "raising_mw = \<lparr>app = (\<lambda>env. Inl (boom, boom_tb)), mw_client = demo_client\<rparr>"



definition second_item_result :: wsgi_result where
  "second_item_result =
     \<lparr>items = [PStr ''first''], iter_raises = Some (boom, boom_tb), close_method = Some None\<rparr>"

definition second_item_mw :: middleware where
  "second_item_mw = \<lparr>app = (\<lambda>env. Inr (Some second_item_result)), mw_client = demo_client\<rparr>"

text \<open>Caller states: one that brings its own \<^verbatim>\<open>sys\<close> entry, one with neither
  \<^verbatim>\<open>sys\<close> nor \<^verbatim>\<open>machine\<close>, one with a tuple as a key of a nested dictionary, one
  with two objects that JSON cannot encode.\<close>

definition own_sys_world :: world where
  "own_sys_world =
     \<lparr>store = [[(PStr ''sys'', PStr ''mine''), (PStr ''user'', PInt 7)]], requests = []\<rparr>"

definition plain_world :: world where
  "plain_world = \<lparr>store = [[(PStr ''user'', PInt 7)]], requests = []\<rparr>"

definition tuple_key_state :: pyval where
  "tuple_key_state = PDict [(PStr ''cache'', PDict [(PTuple [PInt 1, PInt 2], PStr ''x'')])]"

definition object_state :: pyval where
  "object_state =
     PDict [(PStr ''conn'', PObj (PyObj (Some ''<Connection 1>''))),
            (PStr ''broken'', PObj (PyObj None))]"

section \<open>Notions used to state the properties\<close>

text \<open>Reading the envelope: a member of a JSON object, and a field of the single
  error object under \<^verbatim>\<open>errors\<close>.\<close>

definition jget :: "json \<Rightarrow> string \<Rightarrow> json option" where
  "jget j key = (case j of JObj ms \<Rightarrow> map_of ms key | _ \<Rightarrow> None)"

definition envelope_field :: "json \<Rightarrow> string \<Rightarrow> json option" where
  "envelope_field doc key =
     (case jget doc ''errors'' of Some (JArr [err]) \<Rightarrow> jget err key | _ \<Rightarrow> None)"

text \<open>For the machine collector: the value its \<^verbatim>\<open>hostname\<close> entry gets, the calls
  that stand outside every \<^verbatim>\<open>try\<close> in the order in which they are made, and the first
  exception among the outcomes of a sequence of calls.\<close>

definition hostname_entry :: "runtime \<Rightarrow> pyval" where
  "hostname_entry rt =
     (case socket rt of
        None \<Rightarrow> PStr ''<socket module not available>''
      | Some (Inr h) \<Rightarrow> h
      | Some (Inl e) \<Rightarrow> PStr (''<Could not determine: '' @ py_repr e @ ''>''))"

definition unguarded_calls :: "runtime \<Rightarrow> (exn + pyval) list" where
  "unguarded_calls rt =
     os_environ rt #
     (case platform rt of
        None \<Rightarrow> []
      | Some p \<Rightarrow> [platform_uname p, platform_node p, platform_libc_ver p,
                   platform_version p, platform_dist p])"

fun first_failure :: "(exn + 'a) list \<Rightarrow> exn option" where
  "first_failure [] = None"
| "first_failure (Inl e # rs) = Some e"
| "first_failure (Inr v # rs) = first_failure rs"

text \<open>For the encoder: a value all of whose dictionaries, at every depth, have only
  strings, integers, booleans and None as keys.\<close>

fun plain_key :: "pyval \<Rightarrow> bool" where
  "plain_key (PStr s) = True"
| "plain_key (PInt i) = True"
| "plain_key (PBool b) = True"
| "plain_key PNone = True"
| "plain_key k = False"

fun plain_keys :: "pyval \<Rightarrow> bool"
  and plain_keys_list :: "pyval list \<Rightarrow> bool"
  and plain_keys_items :: "(pyval \<times> pyval) list \<Rightarrow> bool"
where
  "plain_keys (PList xs) = plain_keys_list xs"
| "plain_keys (PTuple xs) = plain_keys_list xs"
| "plain_keys (PDict kvs) = plain_keys_items kvs"
| "plain_keys PNone = True"
| "plain_keys (PBool b) = True"
| "plain_keys (PInt i) = True"
| "plain_keys (PStr s) = True"
| "plain_keys (PObj ob) = True"
| "plain_keys_list [] = True"
| "plain_keys_list (x # xs) = (plain_keys x \<and> plain_keys_list xs)"
| "plain_keys_items [] = True"
| "plain_keys_items ((k, v) # kvs) = (plain_key k \<and> plain_keys v \<and> plain_keys_items kvs)"

section \<open>Properties of handle\_exception\<close>

text \<open>The collectors and the state dictionary never touch the network.\<close>

lemma populate_state_requests:
  "requests (snd (populate_state rt sa w)) = requests w"
  by (auto simp: populate_state_def store_set_def Let_def format_e_def
      split: option.splits sum.splits prod.splits if_splits)

text \<open>\<^verbatim>\<open>handle_exception\<close> without its unreachable branches: after line 126
  \<^verbatim>\<open>exc_info\<close> is a triple, after line 137 \<^verbatim>\<open>tags\<close> is a list.\<close>

lemma handle_exception_unfold:
  "handle_exception rt self ei sa tg rf dr w =
     (case (case ei of None \<Rightarrow> sys_exc_info rt | Some t \<Rightarrow> t) of
        (etype, val, tb) \<Rightarrow>
          (case populate_state rt sa w of
             (Inl e, w') \<Rightarrow> (Inl e, w')
           | (Inr a, w') \<Rightarrow>
               (case error_text rt etype val of
                  Inl e \<Rightarrow> (Inl e, w')
                | Inr (ty, msg) \<Rightarrow>
                    (let args = \<lparr>error_type = ty, error_message = msg,
                                  traceback = walk_tb None 0 tb [],
                                  args_environment = environment self,
                                  state = a,
                                  args_tags = tags self @ (case tg of PList ts \<Rightarrow> ts | _ \<Rightarrow> [tg]),
                                  return_feedback_urls = rf\<rparr>
                     in if dr then (Inr (DryRun args), w')
                        else (case send_error rt self ty msg (PList (traceback args))
                                     (environment self) (PDict (store w' ! a))
                                     (PList (args_tags args)) rf w'
                              of (r, w'') \<Rightarrow> (map_sum id Sent r, w''))))))"
  by (cases tg; cases ei)
     (auto simp: handle_exception_def list_add_def Let_def
       split: prod.splits sum.splits)

lemma send_error_store: "store (snd (send_error rt self ty msg tb env st tg rf w)) = store w"
  by (auto simp: send_error_def Let_def split: sum.splits prod.splits exn.splits if_splits)

lemma handle_exception_dry_requests:
  "requests (snd (handle_exception rt self ei sa tg rf True w)) = requests w"
proof -
  have "requests (snd (populate_state rt sa w)) = requests w"
    by (rule populate_state_requests)
  then show ?thesis
    by (auto simp: handle_exception_unfold Let_def split: prod.splits sum.splits)
qed

text \<open>Outside an exception handler the call with no \<^verbatim>\<open>exc_info\<close> always raises, and
  what it raises is never the \<^verbatim>\<open>StackSentinelError\<close> of line 128.\<close>

lemma handle_exception_outside_handler:
  assumes "sys_exc_info rt = (None, v, tb)"
  shows "\<exists>e. fst (handle_exception rt self None sa tg rf dr w) = Inl e
             \<and> (\<forall>m. e \<noteq> StackSentinelError m)"
  using assms
  by (auto simp: handle_exception_unfold error_text_def populate_state_def get_sys_info_def
        format_e_def Let_def
      split: prod.splits sum.splits option.splits if_splits)

text \<open>
  C1.  The claim: when \<^verbatim>\<open>handle_exception\<close> is called without \<^verbatim>\<open>exc_info\<close> while no
  exception is being handled, the call raises \<^verbatim>\<open>StackSentinelError\<close>.  The code does
  not: \<^verbatim>\<open>sys.exc_info()\<close> returns the triple \<^verbatim>\<open>(None, None, None)\<close>, which is not
  \<^verbatim>\<open>None\<close>, so the test of line 127 fails and the call goes on until
  \<^verbatim>\<open>etype.__name__\<close> raises \<^verbatim>\<open>AttributeError\<close>.
\<close>

theorem C1_outside_handler_AttributeError:
  "sys_exc_info ok_runtime = (None, None, [])
   \<and> fst (handle_exception ok_runtime demo_client None None PNone False False empty_world)
       = Inl (AttributeError (quoted ''NoneType'' @ '' object has no attribute ''
                               @ quoted ''__name__''))"
  by code_simp

text \<open>
  C3.  The claim: the tags of the envelope are the client's default tags followed by
  the tags of the call, where absent tags contribute nothing.  The code wraps the
  absent \<^verbatim>\<open>tags\<close> (\<^verbatim>\<open>None\<close>) into the list \<^verbatim>\<open>[None]\<close> at line 137, before the test
  \<^verbatim>\<open>tags is None\<close> of line 169, so the default call sends the client's tags followed
  by \<^verbatim>\<open>None\<close>: in the bundle of a dry run and in the envelope that is sent.
\<close>

theorem C3_absent_tags_send_None:
  "tags demo_client = [PStr ''a'']
   \<and> fst (handle_exception handling_boom demo_client None None PNone False True empty_world)
       = Inr (DryRun \<lparr>error_type = ''ValueError'', error_message = ''boom'',
                       traceback = [frame_dict (hd boom_tb)],
                       args_environment = ''devel'', state = 0,
                       args_tags = [PStr ''a'', PNone], return_feedback_urls = False\<rparr>)
   \<and> map (\<lambda>rq. envelope_field (data rq) ''tags'')
        (requests (snd (handle_exception handling_boom demo_client None None PNone False False
                          empty_world)))
       = [Some (JArr [JStr ''a'', JNull])]"
  by code_simp

text \<open>For every other argument the tags are as the claim says.\<close>

lemma handle_exception_tags:
  assumes "fst (handle_exception rt self ei sa tg rf True w) = Inr (DryRun args)"
  shows "args_tags args = tags self @ (case tg of PList ts \<Rightarrow> ts | _ \<Rightarrow> [tg])"
  using assms
  by (auto simp: handle_exception_unfold Let_def split: prod.splits sum.splits)

text \<open>
  C8.  With \<^verbatim>\<open>dry_run\<close> true no request is handed to \<^verbatim>\<open>urlopen\<close>, the call never
  returns a server reply, and what it returns is the bundle of exactly the arguments
  with which the same call without \<^verbatim>\<open>dry_run\<close> calls \<^verbatim>\<open>send_error\<close>; a call that
  raises before that point raises the same with and without \<^verbatim>\<open>dry_run\<close>.
\<close>

theorem C8_dry_run:
  "requests (snd (handle_exception rt self ei sa tg rf True w)) = requests w
   \<and> (\<forall>x. fst (handle_exception rt self ei sa tg rf True w) \<noteq> Inr (Sent x))
   \<and> handle_exception rt self ei sa tg rf False w =
       (case handle_exception rt self ei sa tg rf True w of
          (Inr (DryRun args), w') \<Rightarrow>
            (case send_error rt self (error_type args) (error_message args)
                    (PList (traceback args)) (args_environment args)
                    (PDict (store w' ! state args)) (PList (args_tags args))
                    (return_feedback_urls args) w'
             of (r, w'') \<Rightarrow> (map_sum id Sent r, w''))
        | (r, w') \<Rightarrow> (r, w'))"
proof (intro conjI)
  show "requests (snd (handle_exception rt self ei sa tg rf True w)) = requests w"
    by (rule handle_exception_dry_requests)
next
  show "\<forall>x. fst (handle_exception rt self ei sa tg rf True w) \<noteq> Inr (Sent x)"
    by (auto simp: handle_exception_unfold Let_def split: prod.splits sum.splits)
next
  show "handle_exception rt self ei sa tg rf False w =
       (case handle_exception rt self ei sa tg rf True w of
          (Inr (DryRun args), w') \<Rightarrow>
            (case send_error rt self (error_type args) (error_message args)
                    (PList (traceback args)) (args_environment args)
                    (PDict (store w' ! state args)) (PList (args_tags args))
                    (return_feedback_urls args) w'
             of (r, w'') \<Rightarrow> (map_sum id Sent r, w''))
        | (r, w') \<Rightarrow> (r, w'))"
    by (simp add: handle_exception_unfold Let_def split: prod.splits sum.splits)
qed

theorem C8_dry_run_witness:
  "requests (snd (handle_exception handling_boom demo_client None None (PList [PStr ''t''])
                    False True empty_world)) = []
   \<and> (\<exists>args. fst (handle_exception handling_boom demo_client None None (PList [PStr ''t''])
                     False True empty_world) = Inr (DryRun args)
             \<and> args_tags args = [PStr ''a'', PStr ''t''])
   \<and> fst (handle_exception handling_boom demo_client None None (PList [PStr ''t''])
            False False empty_world) = Inr (Sent (PDict []))"
proof -
  let ?dry = "handle_exception handling_boom demo_client None None (PList [PStr ''t''])
                False True empty_world"
  have dry: "fst ?dry = Inr (DryRun \<lparr>error_type = ''ValueError'', error_message = ''boom'',
                       traceback = [frame_dict (hd boom_tb)],
                       args_environment = ''devel'', state = 0,
                       args_tags = [PStr ''a'', PStr ''t''], return_feedback_urls = False\<rparr>)"
    by code_simp
  have sent: "fst (handle_exception handling_boom demo_client None None (PList [PStr ''t''])
            False False empty_world) = Inr (Sent (PDict []))"
    by code_simp
  have "requests (snd ?dry) = requests empty_world"
    using C8_dry_run [of handling_boom demo_client None None "PList [PStr ''t'']" False empty_world]
    by blast
  then have "requests (snd ?dry) = []"
    by (simp add: empty_world_def)
  with dry sent show ?thesis by simp
qed

section \<open>Properties of send\_error\<close>

text \<open>What \<^verbatim>\<open>send_error\<close> does with an \<^verbatim>\<open>HTTPError\<close> of \<^verbatim>\<open>urlopen\<close>, for every
  request and every interpreter: status 400 becomes the \<^verbatim>\<open>StackSentinelError\<close> built
  from the body as \<^verbatim>\<open>read()\<close> returns it, and with every other status the
  \<^verbatim>\<open>HTTPError\<close> itself leaves \<^verbatim>\<open>send_error\<close>, unchanged.\<close>

lemma send_error_http_error:
  assumes "generate_request self env msg ty rf st tg tb = Inr (rq, payload)"
    and "urlopen rt rq = Inl (HTTPError code reason content)"
  shows "send_error rt self ty msg tb env st tg rf w =
           (Inl (if code = 400 then error_of_body rt content
                 else HTTPError code reason content),
            w\<lparr>requests := requests w @ [rq]\<rparr>)"
  using assms by (simp add: send_error_def Let_def)

text \<open>
  C4.  The claim: a reply with status 400 makes \<^verbatim>\<open>send_error\<close> raise
  \<^verbatim>\<open>StackSentinelError\<close> whose message equals the body of the reply, so that the body
  \<^verbatim>\<open>bad token\<close> gives the message \<^verbatim>\<open>bad token\<close>; every other HTTP error passes
  unchanged.  On Python 3 the message is not the body: \<^verbatim>\<open>read()\<close> returns the bytes
  object \<^verbatim>\<open>b'bad token'\<close>, line 241 builds the exception from it undecoded, and the
  text of the exception is \<^verbatim>\<open>b'bad token'\<close>, with the \<^verbatim>\<open>b\<close> and the quotes.  The
  reply that arrives without an error is decoded five lines further down; on Python 2,
  where the body is a \<^verbatim>\<open>str\<close>, the message is the body.  The other statuses pass
  unchanged, as the claim says.
\<close>

theorem C4_undecoded_body:
  "version_major bad_token_runtime = 3
   \<and> fst (send_error bad_token_runtime demo_client ''ValueError'' ''boom'' (PList []) ''devel''
          (PDict []) (PList []) False empty_world)
       = Inl (StackSentinelError (CHR ''b'' # quoted ''bad token''))
   \<and> py_str (StackSentinelError (CHR ''b'' # quoted ''bad token'')) \<noteq> ''bad token''
   \<and> fst (send_error py2_bad_token_runtime demo_client ''ValueError'' ''boom'' (PList [])
          ''devel'' (PDict []) (PList []) False empty_world)
       = Inl (StackSentinelError ''bad token'')
   \<and> fst (send_error server_error_runtime demo_client ''ValueError'' ''boom'' (PList []) ''devel''
          (PDict []) (PList []) False empty_world)
       = Inl (HTTPError 500 ''Internal Server Error'' ''oops!'')"
proof -
  have a: "version_major bad_token_runtime = 3"
    by code_simp
  have b: "fst (send_error bad_token_runtime demo_client ''ValueError'' ''boom'' (PList [])
                 ''devel'' (PDict []) (PList []) False empty_world)
       = Inl (StackSentinelError (CHR ''b'' # quoted ''bad token''))"
    by code_simp
  have c: "py_str (StackSentinelError (CHR ''b'' # quoted ''bad token'')) \<noteq> ''bad token''"
    by (simp add: quoted_def)
  have d: "fst (send_error py2_bad_token_runtime demo_client ''ValueError'' ''boom'' (PList [])
          ''devel'' (PDict []) (PList []) False empty_world)
       = Inl (StackSentinelError ''bad token'')"
    by code_simp
  have e: "fst (send_error server_error_runtime demo_client ''ValueError'' ''boom'' (PList [])
          ''devel'' (PDict []) (PList []) False empty_world)
       = Inl (HTTPError 500 ''Internal Server Error'' ''oops!'')"
    by code_simp
  from a b c d e show ?thesis
    by simp
qed

section \<open>The state dictionary\<close>

lemma map_of_dict_set:
  "map_of (dict_set d k v) k' = (if k' = k then Some v else map_of d k')"
  by (simp add: dict_set_def update_conv')

text \<open>What lines 155 to 167 do to the store when the caller passes its own
  dictionary: nothing is allocated, no other dictionary changes, and no entry of the
  caller's dictionary is replaced.\<close>

lemma populate_state_frame:
  assumes "populate_state rt (Some a) w = (r, w')" and "a < length (store w)"
  shows "length (store w') = length (store w)
       \<and> (\<forall>b. b \<noteq> a \<longrightarrow> store w' ! b = store w ! b)
       \<and> (\<forall>k v. map_of (store w ! a) k = Some v \<longrightarrow> map_of (store w' ! a) k = Some v)"
  using assms
  by (auto simp: populate_state_def store_set_def Let_def format_e_def get_sys_info_def
        dict_contains_def map_of_dict_set
      split: sum.splits if_splits)

text \<open>When the dictionary is filled without an exception, each of the two keys it
  lacked holds what the collector returned.\<close>

lemma populate_state_filled:
  assumes "populate_state rt (Some a) w = (Inr a', w')" and "a < length (store w)"
  shows "a' = a
       \<and> (\<not> dict_contains (store w ! a) (PStr ''sys'') \<longrightarrow>
            (\<exists>sv. get_sys_info rt = Inr sv \<and> map_of (store w' ! a) (PStr ''sys'') = Some sv))
       \<and> (\<not> dict_contains (store w ! a) (PStr ''machine'') \<longrightarrow>
            (\<exists>mv. get_machine_info rt = Inr mv
                  \<and> map_of (store w' ! a) (PStr ''machine'') = Some mv))"
  using assms
  by (auto simp: populate_state_def store_set_def Let_def format_e_def get_sys_info_def
        dict_contains_def map_of_dict_set
      split: sum.splits if_splits)

text \<open>After the state dictionary is filled, \<^verbatim>\<open>handle_exception\<close> leaves the store
  alone, and the bundle refers to the dictionary that was filled.\<close>

lemma handle_exception_store:
  "store (snd (handle_exception rt self ei sa tg rf dr w)) = store (snd (populate_state rt sa w))"
  by (simp add: handle_exception_unfold Let_def case_prod_beta send_error_store
      split: sum.splits)

lemma handle_exception_returns:
  assumes "handle_exception rt self ei sa tg rf dr w = (Inr r, w')"
  shows "\<exists>a. fst (populate_state rt sa w) = Inr a
             \<and> (\<forall>args. r = DryRun args \<longrightarrow> state args = a)"
proof (cases "fst (populate_state rt sa w)")
  case (Inl e)
  with assms show ?thesis
    by (simp add: handle_exception_unfold Let_def case_prod_beta)
next
  case (Inr a)
  have "state args = a" if "r = DryRun args" for args
  proof (cases dr)
    case True
    with assms Inr that show ?thesis
      by (auto simp: handle_exception_unfold Let_def case_prod_beta split: sum.splits)
  next
    case False
    with assms Inr that show ?thesis
      by (auto simp: handle_exception_unfold Let_def case_prod_beta map_sum_def
          split: sum.splits)
  qed
  with Inr show ?thesis by simp
qed

text \<open>
  C10.  When the caller passes its own state dictionary and the call returns, the
  entries \<^verbatim>\<open>sys\<close> and \<^verbatim>\<open>machine\<close> that the dictionary lacked have been stored into that
  very dictionary: the store has no new dictionary, every other dictionary is as it
  was, the caller's dictionary now holds the collected values under the keys it
  lacked, and the bundle of a dry run refers to the caller's dictionary.
\<close>

theorem C10_state_mutated_in_place:
  assumes "a < length (store w)"
    and "handle_exception rt self ei (Some a) tg rf dr w = (Inr r, w')"
  shows "length (store w') = length (store w)
       \<and> (\<forall>b. b \<noteq> a \<longrightarrow> store w' ! b = store w ! b)
       \<and> (\<not> dict_contains (store w ! a) (PStr ''sys'') \<longrightarrow>
            (\<exists>sv. get_sys_info rt = Inr sv \<and> map_of (store w' ! a) (PStr ''sys'') = Some sv))
       \<and> (\<not> dict_contains (store w ! a) (PStr ''machine'') \<longrightarrow>
            (\<exists>mv. get_machine_info rt = Inr mv
                  \<and> map_of (store w' ! a) (PStr ''machine'') = Some mv))
       \<and> (\<forall>args. r = DryRun args \<longrightarrow> state args = a)"
proof -
  obtain r1 w1 where p: "populate_state rt (Some a) w = (r1, w1)"
    by (cases "populate_state rt (Some a) w")
  from handle_exception_returns [OF assms(2)] p
  obtain a' where r1: "r1 = Inr a'"
    and b: "\<forall>args. r = DryRun args \<longrightarrow> state args = a'"
    by auto
  have s: "store w' = store w1"
    using handle_exception_store [of rt self ei "Some a" tg rf dr w] assms(2) p by simp
  from p r1 have p': "populate_state rt (Some a) w = (Inr a', w1)"
    by simp
  from populate_state_filled [OF p' assms(1)] populate_state_frame [OF p' assms(1)] s b
  show ?thesis by simp
qed

theorem C10_state_mutated_in_place_witness:
  "\<not> dict_contains (store plain_world ! 0) (PStr ''sys'')
   \<and> \<not> dict_contains (store plain_world ! 0) (PStr ''machine'')
   \<and> dict_contains (store (snd (handle_exception handling_boom demo_client None (Some 0)
                            PNone False True plain_world)) ! 0) (PStr ''sys'')
   \<and> dict_contains (store (snd (handle_exception handling_boom demo_client None (Some 0)
                            PNone False True plain_world)) ! 0) (PStr ''machine'')
   \<and> length (store (snd (handle_exception handling_boom demo_client None (Some 0)
                            PNone False True plain_world))) = 1"
proof -
  let ?h = "handle_exception handling_boom demo_client None (Some 0) PNone False True plain_world"
  have "case ?h of (Inr r, w') \<Rightarrow> True | (Inl e, w') \<Rightarrow> False"
    by code_simp
  then obtain r w' where h: "?h = (Inr r, w')"
    by (auto split: prod.splits sum.splits)
  have l: "0 < length (store plain_world)" "length (store plain_world) = 1"
    by (simp_all add: plain_world_def)
  have n: "\<not> dict_contains (store plain_world ! 0) (PStr ''sys'')"
    "\<not> dict_contains (store plain_world ! 0) (PStr ''machine'')"
    by (simp_all add: plain_world_def dict_contains_def)
  from C10_state_mutated_in_place [OF l(1) h] n l(2) h
  show ?thesis by (auto simp: dict_contains_def)
qed

section \<open>The envelope\<close>

text \<open>\<^verbatim>\<open>send_error\<close> hands one request to \<^verbatim>\<open>urlopen\<close> when the envelope could be
  built, and none otherwise.\<close>

lemma send_error_requests:
  "requests (snd (send_error rt self ty msg tb env st tg rf w)) =
     (case generate_request self env msg ty rf st tg tb of
        Inl e \<Rightarrow> requests w
      | Inr p \<Rightarrow> requests w @ [fst p])"
  by (auto simp: send_error_def Let_def split: sum.splits prod.splits exn.splits if_splits)

text \<open>The field \<^verbatim>\<open>state\<close> of the envelope that a request carries is the encoding of
  the state.\<close>

lemma generate_request_state:
  assumes "generate_request self env msg ty rf st tg tb = Inr p"
  shows "\<exists>js. json_dumps serialize_object st = Inr js
              \<and> envelope_field (data (fst p)) ''state'' = Some js"
  using assms
  by (auto simp: generate_request_def envelope_field_def jget_def split: sum.splits)

lemma handle_exception_sent_request:
  assumes "requests (snd (handle_exception rt self ei sa tg rf dr w)) = requests w @ [rq]"
  shows "\<exists>a ty msg tgs tb p. fst (populate_state rt sa w) = Inr a
             \<and> generate_request self (environment self) msg ty rf
                  (PDict (store (snd (populate_state rt sa w)) ! a)) tgs tb = Inr p
             \<and> fst p = rq"
proof -
  have rw: "requests (snd (populate_state rt sa w)) = requests w"
    by (rule populate_state_requests)
  from assms rw show ?thesis
    by (auto simp: handle_exception_unfold Let_def case_prod_beta send_error_requests
        split: sum.splits if_splits) blast
qed

text \<open>A request that \<^verbatim>\<open>handle_exception\<close> sends carries the encoding of the state
  dictionary as it is after lines 155 to 167.\<close>

lemma handle_exception_sent:
  assumes "requests (snd (handle_exception rt self ei sa tg rf dr w)) = requests w @ [rq]"
  shows "\<exists>a js. fst (populate_state rt sa w) = Inr a
             \<and> json_dumps serialize_object (PDict (store (snd (populate_state rt sa w)) ! a))
                 = Inr js
             \<and> envelope_field (data rq) ''state'' = Some js"
proof -
  from handle_exception_sent_request [OF assms]
  obtain a ty msg tgs tb p where a: "fst (populate_state rt sa w) = Inr a"
    and g: "generate_request self (environment self) msg ty rf
              (PDict (store (snd (populate_state rt sa w)) ! a)) tgs tb = Inr p"
    and p: "fst p = rq"
    by blast
  from generate_request_state [OF g] p a show ?thesis
    by blast
qed

text \<open>The encoder writes an integer key as its decimal text, which is neither
  \<^verbatim>\<open>sys\<close> nor \<^verbatim>\<open>machine\<close>; so the only key that is written as one of the two is the
  string itself.\<close>

lemma digits_not_letter: "CHR ''s'' \<notin> set (digits n) \<and> CHR ''m'' \<notin> set (digits n)"
proof (induction n rule: digits.induct)
  case (1 n)
  have nth: "CHR ''s'' \<noteq> ''0123456789'' ! k \<and> CHR ''m'' \<noteq> ''0123456789'' ! k" if "k < 10" for k :: nat
  proof -
    from that have "k \<in> {0, 1, 2, 3, 4, 5, 6, 7, 8, 9}"
      by auto
    then show ?thesis
      by auto
  qed
  show ?case
  proof (cases "n < 10")
    case True
    then have "digits n = [''0123456789'' ! n]"
      by (subst digits.simps) simp
    with nth [OF True] show ?thesis
      by simp
  next
    case False
    then have "digits n = digits (n div 10) @ [''0123456789'' ! (n mod 10)]"
      by (subst digits.simps) simp
    moreover have "n mod 10 < 10"
      by simp
    ultimately show ?thesis
      using "1.IH" False nth [of "n mod 10"] by simp
  qed
qed

lemma int_text_not_key: "int_text i \<noteq> ''sys'' \<and> int_text i \<noteq> ''machine''"
proof -
  have "CHR ''s'' \<notin> set (int_text i) \<and> CHR ''m'' \<notin> set (int_text i)"
    using digits_not_letter [of "nat i"] digits_not_letter [of "nat (- i)"]
    by (simp add: int_text_def)
  then show ?thesis
    by auto
qed

lemma json_key_sys_machine:
  assumes "json_key k = Inr key" and "key = ''sys'' \<or> key = ''machine''"
  shows "k = PStr key"
proof (cases k)
  case (PInt i)
  with assms(1) have "key = int_text i" by simp
  with assms(2) int_text_not_key [of i] show ?thesis by auto
qed (use assms in \<open>auto split: if_splits\<close>)

lemma json_dumps_items_lookup:
  assumes "json_dumps_items dflt d = Inr ms" and "map_of d (PStr s) = Some v"
    and "\<And>k. json_key k = Inr s \<Longrightarrow> k = PStr s"
  shows "\<exists>j. json_dumps dflt v = Inr j \<and> map_of ms s = Some j"
  using assms(1,2)
proof (induction d arbitrary: ms)
  case Nil
  then show ?case by simp
next
  case (Cons kv d)
  obtain k x where kv: "kv = (k, x)" by (cases kv)
  from Cons.prems(1) kv obtain ks j ms' where
    k: "json_key k = Inr ks" and x: "json_dumps dflt x = Inr j"
    and r: "json_dumps_items dflt d = Inr ms'" and ms: "ms = (ks, j) # ms'"
    by (auto split: sum.splits)
  show ?case
  proof (cases "k = PStr s")
    case True
    with k x ms kv Cons.prems(2) show ?thesis by simp
  next
    case False
    with assms(3) k have "ks \<noteq> s" by blast
    moreover from False kv Cons.prems(2) have "map_of d (PStr s) = Some v" by simp
    ultimately show ?thesis
      using Cons.IH [OF r] ms by simp
  qed
qed

text \<open>
  C6.  When the caller's state dictionary has the key \<^verbatim>\<open>sys\<close> or \<^verbatim>\<open>machine\<close>, the
  caller's value stays under that key whatever the call does (the collector's value is
  not stored over it), the bundle of a dry run refers to that dictionary, and in the
  envelope of a request that is sent the field \<^verbatim>\<open>state\<close> holds under that key the
  encoding of the caller's value.
\<close>

theorem C6_caller_state_wins:
  assumes "a < length (store w)"
    and "map_of (store w ! a) (PStr key) = Some v"
    and "key = ''sys'' \<or> key = ''machine''"
  shows "map_of (store (snd (handle_exception rt self ei (Some a) tg rf dr w)) ! a) (PStr key)
           = Some v
       \<and> (\<forall>args. fst (handle_exception rt self ei (Some a) tg rf dr w) = Inr (DryRun args)
             \<longrightarrow> state args = a)
       \<and> (\<forall>rq. requests (snd (handle_exception rt self ei (Some a) tg rf dr w))
                 = requests w @ [rq]
             \<longrightarrow> (\<exists>j sj. json_dumps serialize_object v = Inr j
                        \<and> envelope_field (data rq) ''state'' = Some sj
                        \<and> jget sj key = Some j))"
proof (intro conjI allI impI)
  obtain r1 w1 where p: "populate_state rt (Some a) w = (r1, w1)"
    by (cases "populate_state rt (Some a) w")
  from populate_state_frame [OF p assms(1)] assms(2)
  have kept: "map_of (store w1 ! a) (PStr key) = Some v"
    by simp
  show "map_of (store (snd (handle_exception rt self ei (Some a) tg rf dr w)) ! a) (PStr key)
          = Some v"
    using kept p by (simp add: handle_exception_store)
  {
    fix args
    assume d: "fst (handle_exception rt self ei (Some a) tg rf dr w) = Inr (DryRun args)"
    then obtain w' where
      "handle_exception rt self ei (Some a) tg rf dr w = (Inr (DryRun args), w')"
      by (cases "handle_exception rt self ei (Some a) tg rf dr w") simp
    from handle_exception_returns [OF this] p have p2: "r1 = Inr (state args)"
      by auto
    from populate_state_filled [OF p [unfolded p2] assms(1)] show "state args = a"
      by simp
  }
  {
    fix rq
    assume q: "requests (snd (handle_exception rt self ei (Some a) tg rf dr w))
                 = requests w @ [rq]"
    from handle_exception_sent [OF q] p obtain a' js where
      r1: "r1 = Inr a'"
      and js: "json_dumps serialize_object (PDict (store w1 ! a')) = Inr js"
      and f: "envelope_field (data rq) ''state'' = Some js"
      by auto
    from populate_state_filled [OF p [unfolded r1] assms(1)] have a': "a' = a"
      by simp
    from js a' obtain ms where ms: "json_dumps_items serialize_object (store w1 ! a) = Inr ms"
      and jo: "js = JObj ms"
      by (auto split: sum.splits)
    have "\<And>k. json_key k = Inr key \<Longrightarrow> k = PStr key"
      using json_key_sys_machine assms(3) by blast
    from json_dumps_items_lookup [OF ms kept this]
    obtain j where "json_dumps serialize_object v = Inr j" and "map_of ms key = Some j"
      by blast
    with f jo show "\<exists>j sj. json_dumps serialize_object v = Inr j
                        \<and> envelope_field (data rq) ''state'' = Some sj
                        \<and> jget sj key = Some j"
      by (auto simp: jget_def)
  }
qed

theorem C6_caller_state_wins_witness:
  "map_of (store own_sys_world ! 0) (PStr ''sys'') = Some (PStr ''mine'')
   \<and> map_of (store (snd (handle_exception handling_boom demo_client None (Some 0) PNone
                           False False own_sys_world)) ! 0) (PStr ''sys'')
       = Some (PStr ''mine'')
   \<and> (\<exists>rq sj. requests (snd (handle_exception handling_boom demo_client None (Some 0) PNone
                               False False own_sys_world)) = [rq]
             \<and> envelope_field (data rq) ''state'' = Some sj
             \<and> jget sj ''sys'' = Some (JStr ''mine''))"
proof -
  let ?h = "handle_exception handling_boom demo_client None (Some 0) PNone False False
              own_sys_world"
  have l: "0 < length (store own_sys_world)"
    and m: "map_of (store own_sys_world ! 0) (PStr ''sys'') = Some (PStr ''mine'')"
    and e: "requests own_sys_world = []"
    by (simp_all add: own_sys_world_def)
  have "length (requests (snd ?h)) = 1"
    by code_simp
  then obtain rq where rq: "requests (snd ?h) = requests own_sys_world @ [rq]"
    unfolding e by (cases "requests (snd ?h)") auto
  from C6_caller_state_wins [OF l m, of handling_boom demo_client None PNone False False] rq
  have k: "map_of (store (snd ?h) ! 0) (PStr ''sys'') = Some (PStr ''mine'')"
    and "\<exists>j sj. json_dumps serialize_object (PStr ''mine'') = Inr j
             \<and> envelope_field (data rq) ''state'' = Some sj \<and> jget sj ''sys'' = Some j"
    by blast+
  then obtain sj where "envelope_field (data rq) ''state'' = Some sj"
    and "jget sj ''sys'' = Some (JStr ''mine'')"
    by auto
  with rq e m k show ?thesis
    by simp
qed

section \<open>The encoder\<close>

text \<open>The encoder fails on exactly the keys that are not a string, an integer, a
  boolean or None, and so on exactly the values that hold such a key at some depth:
  the fallback is called for values, never for keys.\<close>

lemma json_key_total: "(\<exists>s. json_key k = Inr s) = plain_key k"
  by (cases k) auto

lemma json_dumps_total:
  "(\<exists>j. json_dumps dflt v = Inr j) = plain_keys v"
  "(\<exists>js. json_dumps_list dflt xs = Inr js) = plain_keys_list xs"
  "(\<exists>ms. json_dumps_items dflt kvs = Inr ms) = plain_keys_items kvs"
proof (induction dflt v and dflt xs and dflt kvs
       rule: json_dumps_json_dumps_list_json_dumps_items.induct)
  case (12 dflt k v kvs)
  show ?case
  proof (cases "json_key k")
    case (Inl e)
    with json_key_total [of k] show ?thesis
      by simp
  next
    case (Inr s)
    with json_key_total [of k] have pk: "plain_key k"
      by simp
    from 12 (1) [OF Inr] have v: "(\<exists>j. json_dumps dflt v = Inr j) = plain_keys v" .
    show ?thesis
    proof (cases "json_dumps dflt v")
      case (Inl e)
      with v Inr show ?thesis
        by simp
    next
      case j: (Inr j)
      from 12 (2) [OF Inr j] j v Inr pk show ?thesis
        by (auto split: sum.splits)
    qed
  qed
qed (auto split: sum.splits)

text \<open>The entries of an encoded dictionary are the encodings of the entries, in
  order.\<close>

lemma json_dumps_items_values:
  "json_dumps_items dflt d = Inr ms \<Longrightarrow> map (json_dumps dflt \<circ> snd) d = map (Inr \<circ> snd) ms"
proof (induction d arbitrary: ms)
  case Nil
  then show ?case by simp
next
  case (Cons kv d)
  obtain k x where kv: "kv = (k, x)" by (cases kv)
  from Cons.prems kv obtain ks j ms' where
    x: "json_dumps dflt x = Inr j"
    and r: "json_dumps_items dflt d = Inr ms'" and ms: "ms = (ks, j) # ms'"
    by (auto split: sum.splits)
  with Cons.IH [OF r] kv show ?case
    by simp
qed

text \<open>\<^verbatim>\<open>_generate_request\<close> returns exactly when no dictionary inside the state, the
  traceback and the tags that are sent has a key of another kind.\<close>

lemma generate_request_total:
  "(\<exists>p. generate_request self env msg ty rf st tg tb = Inr p)
     = (plain_keys st \<and> plain_keys tb \<and> (truthy tg \<longrightarrow> plain_keys tg))"
proof -
  let ?doc = "PDict [(PStr ''account_token'', PStr (account_token self)),
                     (PStr ''project_token'', PStr (project_token self)),
                     (PStr ''return_feedback_urls'', PBool rf),
                     (PStr ''errors'',
                        PList [PDict [(PStr ''error_type'', PStr ty),
                                      (PStr ''error_message'', PStr msg),
                                      (PStr ''environment'', PStr env),
                                      (PStr ''traceback'', tb),
                                      (PStr ''state'', st),
                                      (PStr ''tags'', if truthy tg then tg else PList [])]])]"
  have "(\<exists>p. generate_request self env msg ty rf st tg tb = Inr p)
          = (\<exists>j. json_dumps serialize_object ?doc = Inr j)"
    unfolding generate_request_def by (cases "json_dumps serialize_object ?doc") simp_all
  also have "\<dots> = plain_keys ?doc"
    by (rule json_dumps_total(1))
  also have "\<dots> = (plain_keys st \<and> plain_keys tb \<and> (truthy tg \<longrightarrow> plain_keys tg))"
    by auto
  finally show ?thesis .
qed

text \<open>
  C7.  The claim: for every state value that the native serializer cannot encode,
  building the envelope succeeds.  It fails on the code: the fallback
  \<^verbatim>\<open>_serialize_object\<close> is consulted for values only, and a state with a
  dictionary that has a tuple as a key makes \<^verbatim>\<open>json.dumps\<close> raise \<^verbatim>\<open>TypeError\<close>
  out of \<^verbatim>\<open>_generate_request\<close>.
\<close>

theorem C7_counterexample:
  "generate_request demo_client ''devel'' ''boom'' ''ValueError'' False tuple_key_state
       (PList []) (PList [])
     = Inl (TypeError ''keys must be str, int, float, bool or None'')"
  by code_simp

text \<open>
  C7 as amended.  When every dictionary inside the state, the tags and the traceback
  has only strings, integers, booleans and None as keys, \<^verbatim>\<open>_generate_request\<close>
  returns: the request carries the payload, the field \<^verbatim>\<open>state\<close> of the envelope is
  the encoding of the state, the entries of a state dictionary are encoded one by one
  in order, and an object without a native encoding is encoded as the string
  \<^verbatim>\<open>repr\<close> returns for it, or as \<^verbatim>\<open><Cannot Be Serialized>\<close> when \<^verbatim>\<open>repr\<close> raises.
\<close>

theorem C7_encode_total:
  assumes "plain_keys st" and "plain_keys tg" and "plain_keys tb"
  shows "\<exists>rq payload js.
           generate_request self env msg ty rf st tg tb = Inr (rq, payload)
         \<and> data rq = payload
         \<and> json_dumps serialize_object st = Inr js
         \<and> envelope_field payload ''state'' = Some js
         \<and> (\<forall>d. st = PDict d \<longrightarrow>
               (\<exists>ms. js = JObj ms
                    \<and> map (json_dumps serialize_object \<circ> snd) d = map (Inr \<circ> snd) ms))
         \<and> (\<forall>ob. json_dumps serialize_object (PObj ob) =
                    Inr (JStr (case repr_outcome ob of
                                 Some s \<Rightarrow> s | None \<Rightarrow> ''<Cannot Be Serialized>'')))"
proof -
  from assms generate_request_total [of self env msg ty rf st tg tb]
  obtain p where p: "generate_request self env msg ty rf st tg tb = Inr p"
    by auto
  obtain rq payload where rp: "p = (rq, payload)"
    by (cases p)
  from p rp have d: "data rq = payload"
    by (auto simp: generate_request_def split: sum.splits)
  from generate_request_state [OF p] rp d obtain js where
    js: "json_dumps serialize_object st = Inr js"
    and f: "envelope_field payload ''state'' = Some js"
    by auto
  have "\<exists>ms. js = JObj ms \<and> map (json_dumps serialize_object \<circ> snd) d = map (Inr \<circ> snd) ms"
    if "st = PDict d" for d
  proof -
    from js that obtain ms where ms: "json_dumps_items serialize_object d = Inr ms"
      and jo: "js = JObj ms"
      by (auto split: sum.splits)
    from json_dumps_items_values [OF ms] jo show ?thesis
      by simp
  qed
  with p rp d js f show ?thesis
    by (simp add: serialize_object_def)
qed

theorem C7_encode_total_witness:
  "plain_keys object_state
   \<and> (\<exists>rq payload.
         generate_request demo_client ''devel'' ''boom'' ''ValueError'' False object_state
           (PList []) (PList []) = Inr (rq, payload)
       \<and> envelope_field payload ''state''
           = Some (JObj [(''conn'', JStr ''<Connection 1>''),
                         (''broken'', JStr ''<Cannot Be Serialized>'')]))"
proof -
  have pk: "plain_keys object_state" "plain_keys (PList [])"
    by (simp_all add: object_state_def)
  have e: "json_dumps serialize_object object_state
             = Inr (JObj [(''conn'', JStr ''<Connection 1>''),
                          (''broken'', JStr ''<Cannot Be Serialized>'')])"
    by code_simp
  from C7_encode_total [OF pk(1) pk(2) pk(2),
      of demo_client "''devel''" "''boom''" "''ValueError''" False] e pk(1)
  show ?thesis
    by auto
qed

section \<open>The machine collector\<close>

text \<open>
  C2.  The claim: every sub-field of \<^verbatim>\<open>_get_machine_info\<close> that fails to be collected
  is replaced by a placeholder, and no failure leaves the collector.  It fails on the
  code, which guards the host name only: on an interpreter without
  \<^verbatim>\<open>platform.dist\<close> the \<^verbatim>\<open>AttributeError\<close> of line 216 leaves the collector.
  There \<^verbatim>\<open>handle_exception\<close> catches it (line 166), but no placeholder is stored:
  formatting it with \<^verbatim>\<open>%e\<close> raises \<^verbatim>\<open>TypeError\<close>, which ends the call.
\<close>

theorem C2_counterexample:
  "map_option platform_dist (platform no_dist_runtime)
     = Some (Inl (AttributeError ''module platform has no attribute dist''))
   \<and> get_machine_info no_dist_runtime
     = Inl (AttributeError ''module platform has no attribute dist'')
   \<and> fst (handle_exception no_dist_runtime demo_client None None PNone False True empty_world)
     = Inl (TypeError ''must be real number, not AttributeError'')"
  by code_simp

text \<open>
  C2 as amended.  When \<^verbatim>\<open>socket.gethostname\<close> returns, or raises an exception that
  derives from \<^verbatim>\<open>Exception\<close>, or the module is missing, the host name is the only
  guarded entry: the first of the unguarded calls (the environment, then the five
  calls into \<^verbatim>\<open>platform\<close>) that raises makes the collector raise that exception;
  when none raises, the collector returns the mapping that holds the host name, or the
  placeholder that describes its failure, under \<^verbatim>\<open>hostname\<close>, and after it what the
  unguarded calls returned, under their keys.
\<close>

theorem C2_only_hostname_guarded:
  assumes "\<forall>e. socket rt = Some (Inl e) \<longrightarrow> is_Exception e"
  shows "case first_failure (unguarded_calls rt) of
           Some e \<Rightarrow> get_machine_info rt = Inl e
         | None \<Rightarrow>
             get_machine_info rt =
               Inr (PDict ((PStr ''hostname'', hostname_entry rt) #
                           zip (map PStr [''environ'', ''platform'', ''node'', ''libc_ver'',
                                          ''version'', ''dist''])
                               (map projr (unguarded_calls rt))))"
proof -
  have h: "(case socket rt of
              Some gethostname \<Rightarrow>
                (case gethostname of
                   Inr h \<Rightarrow> Inr (dict_set [] (PStr ''hostname'') h)
                 | Inl e \<Rightarrow>
                     if is_Exception e
                     then Inr (dict_set [] (PStr ''hostname'')
                                 (PStr (''<Could not determine: '' @ py_repr e @ ''>'')))
                     else Inl e)
            | None \<Rightarrow> Inr (dict_set [] (PStr ''hostname'') (PStr ''<socket module not available>'')))
           = Inr [(PStr ''hostname'', hostname_entry rt)]"
    using assms
    by (auto simp: hostname_entry_def dict_set_def split: option.splits sum.splits)
  show ?thesis
  proof (cases "platform rt")
    case None
    then show ?thesis
      unfolding get_machine_info_def h
      by (cases "os_environ rt")
         (simp_all add: unguarded_calls_def and_then_def assign_def dict_set_def)
  next
    case (Some p)
    then show ?thesis
      unfolding get_machine_info_def h
      by (cases "os_environ rt"; cases "platform_uname p"; cases "platform_node p";
          cases "platform_libc_ver p"; cases "platform_version p"; cases "platform_dist p")
         (simp_all add: unguarded_calls_def and_then_def assign_def dict_set_def)
  qed
qed

theorem C2_only_hostname_guarded_witness:
  "socket no_hostname_runtime = Some (Inl (Exn ''OSError'' ''gethostname failed'' True))
   \<and> first_failure (unguarded_calls no_hostname_runtime) = None
   \<and> (\<exists>m. get_machine_info no_hostname_runtime = Inr (PDict m)
          \<and> length m = 7
          \<and> map_of m (PStr ''hostname'')
              = Some (PStr (''<Could not determine: ''
                            @ py_repr (Exn ''OSError'' ''gethostname failed'' True) @ ''>'')))"
proof -
  have s: "socket no_hostname_runtime = Some (Inl (Exn ''OSError'' ''gethostname failed'' True))"
    by code_simp
  have f: "first_failure (unguarded_calls no_hostname_runtime) = None"
    by code_simp
  have n: "length (unguarded_calls no_hostname_runtime) = 6"
    by code_simp
  have a: "\<forall>e. socket no_hostname_runtime = Some (Inl e) \<longrightarrow> is_Exception e"
    unfolding s by simp
  have e: "hostname_entry no_hostname_runtime
       = PStr (''<Could not determine: '' @ py_repr (Exn ''OSError'' ''gethostname failed'' True)
               @ ''>'')"
    unfolding hostname_entry_def s by simp
  from C2_only_hostname_guarded [OF a] f s e n show ?thesis
    by simp
qed

section \<open>Properties of the middleware\<close>

text \<open>
  C9.  Once the body of \<^verbatim>\<open>__call__\<close> has started, \<^verbatim>\<open>close\<close> is called exactly once
  when the application returned an object that has a \<^verbatim>\<open>close\<close> method, on every way
  out: the response is exhausted, its iteration raises, the reporting call raises, or
  the consumer closes the generator early.  When the application raised or returned
  \<^verbatim>\<open>None\<close> there is no response object, and nothing is closed.
\<close>

theorem C9_close_once:
  assumes "demand \<noteq> Some 0"
  shows "closes (fst (middleware_call rt self environ demand w)) =
           (case app self environ of
              Inr (Some res) \<Rightarrow> (if close_method res = None then 0 else 1)
            | _ \<Rightarrow> 0)"
  using assms
  by (auto simp: middleware_call_def finally_close_def Let_def
      split: sum.splits prod.splits option.splits)

theorem C9_close_once_witness:
  "closes (fst (middleware_call ok_runtime second_item_mw (PDict []) None empty_world)) = 1
   \<and> closes (fst (middleware_call ok_runtime second_item_mw (PDict []) (Some 1) empty_world)) = 1
   \<and> closes (fst (middleware_call ok_runtime raising_mw (PDict []) None empty_world)) = 0"
  using C9_close_once [of None ok_runtime second_item_mw "PDict []" empty_world]
    C9_close_once [of "Some 1" ok_runtime second_item_mw "PDict []" empty_world]
    C9_close_once [of None ok_runtime raising_mw "PDict []" empty_world]
  by (simp add: second_item_mw_def second_item_result_def raising_mw_def)





end
